theory Spec2Isabelle
  imports Complex_Main
begin

section \<open>The quaternion engine (libs/Quaternion.ts)\<close>

text \<open>
  The class \<^verbatim>\<open>TSMT$Quaternion\<close> keeps its state in the four-element array
  \<^verbatim>\<open>_q\<close>; the class comment fixes the layout as
  \<^verbatim>\<open>q[0] + q[1]i + q[2]j + q[3]k\<close>, that is (w, i, j, k). The array always
  has exactly four slots (the constructor writes \<^verbatim>\<open>[1, 0, 0, 0]\<close> and every
  later write addresses an index from 0 to 3), so it is a record with one field per
  slot. A method that overwrites \<^verbatim>\<open>this._q\<close> is a function from the old
  array to the new one. The components are finite doubles, taken as real numbers, and
  the arithmetic on them is the exact one, without rounding. Where the source can
  produce NaN or an infinity the model says so: \<^verbatim>\<open>length\<close> and
  \<^verbatim>\<open>normalize\<close> account for the overflow of the squares, and
  \<^verbatim>\<open>fromRotationMatrix\<close> for the division by zero and the square root of a
  negative number.
\<close>

record quat =
  q0 :: real
  q1 :: real
  q2 :: real
  q3 :: real

text \<open>Writing a slot by a computed index, as \<^verbatim>\<open>this._q[u] = x\<close> does.\<close>

definition qset :: "nat \<Rightarrow> real \<Rightarrow> quat \<Rightarrow> quat" where
  "qset n x q =
     (if n = 0 then q\<lparr>q0 := x\<rparr> else if n = 1 then q\<lparr>q1 := x\<rparr>
      else if n = 2 then q\<lparr>q2 := x\<rparr> else q\<lparr>q3 := x\<rparr>)"

text \<open>The constructor: \<^verbatim>\<open>this._q = [1, 0, 0, 0]\<close>.\<close>

definition Quaternion_new :: quat where
  "Quaternion_new = \<lparr>q0 = 1, q1 = 0, q2 = 0, q3 = 0\<rparr>"

text \<open>The getter \<^verbatim>\<open>values\<close> returns \<^verbatim>\<open>this._q.slice()\<close>, a copy.\<close>

definition values_q :: "quat \<Rightarrow> quat" where
  "values_q q = q"

text \<open>
  \<^verbatim>\<open>fromArray(... values)\<close>: fewer than three values return at once; exactly
  three fill slots 1 to 3 and set slot 0 to 1.0; otherwise the first four values fill
  slots 0 to 3.
\<close>

fun fromArray :: "real list \<Rightarrow> quat \<Rightarrow> quat" where
  "fromArray [] q = q"
| "fromArray [a] q = q"
| "fromArray [a, b] q = q"
| "fromArray [a, b, c] q = q\<lparr>q1 := a, q2 := b, q3 := c, q0 := 1\<rparr>"
| "fromArray (a # b # c # d # rest) q = q\<lparr>q0 := a, q1 := b, q2 := c, q3 := d\<rparr>"

definition toArray :: "quat \<Rightarrow> real list" where
  "toArray q = [q0 q, q1 q, q2 q, q3 q]"

text \<open>\<^verbatim>\<open>clone()\<close>: a new instance loaded through \<^verbatim>\<open>fromArray\<close>.\<close>

definition clone :: "quat \<Rightarrow> quat" where
  "clone q = fromArray [q0 q, q1 q, q2 q, q3 q] Quaternion_new"

text \<open>
  \<^verbatim>\<open>length()\<close> squares the four components, adds the squares and takes the square
  root. The components are finite doubles, but a square or a partial sum can leave the
  double range, and then it is \<^verbatim>\<open>Infinity\<close>. A square and a sum of squares are
  never negative and never NaN, so the values on the way are a finite number or
  \<^verbatim>\<open>Infinity\<close>. Rounding to nearest turns an exact result into \<^verbatim>\<open>Infinity\<close>
  when it reaches 2^1024 - 2^970, half a unit in the last place above the largest
  double. The rounding of results that stay finite is not modelled.
\<close>

datatype magnitude = Fin real | Infinity

definition overflow_threshold :: real where
  "overflow_threshold = 2 ^ 1024 - 2 ^ 970"

definition to_double :: "real \<Rightarrow> magnitude" where
  "to_double x = (if overflow_threshold \<le> x then Infinity else Fin x)"

text \<open>\<^verbatim>\<open>a + b\<close> and \<^verbatim>\<open>Math.sqrt(a)\<close> on such values.\<close>

fun plus_d :: "magnitude \<Rightarrow> magnitude \<Rightarrow> magnitude" where
  "plus_d (Fin x) (Fin y) = to_double (x + y)"
| "plus_d _ _ = Infinity"

fun sqrt_d :: "magnitude \<Rightarrow> magnitude" where
  "sqrt_d (Fin x) = Fin (sqrt x)"
| "sqrt_d Infinity = Infinity"

definition length_q :: "quat \<Rightarrow> magnitude" where
  "length_q q =
     sqrt_d (plus_d (plus_d (plus_d (to_double (q0 q * q0 q)) (to_double (q1 q * q1 q)))
                            (to_double (q2 q * q2 q)))
                    (to_double (q3 q * q3 q)))"

text \<open>
  \<^verbatim>\<open>normalize()\<close>. When the length is \<^verbatim>\<open>Infinity\<close> the test
  \<^verbatim>\<open>Math.abs(l) < 0.0000000001\<close> fails and \<^verbatim>\<open>d = 1.0 / l\<close> is 0. In the
  other cases \<^verbatim>\<open>d\<close> is 1.0 or the reciprocal of a length of at least 1e-10, and
  no component exceeds the length, so the four products stay in range.
\<close>

definition normalize_q :: "quat \<Rightarrow> quat" where
  "normalize_q q =
     (let l = length_q q;
          d = (case l of
                 Fin x \<Rightarrow> (if \<bar>x\<bar> < 0.0000000001 then 1.0 else 1.0 / x)
               | Infinity \<Rightarrow> 0)
      in \<lparr>q0 = q0 q * d, q1 = q1 q * d, q2 = q2 q * d, q3 = q3 q * d\<rparr>)"

text \<open>
  The Euclidean norm of the four components as a real number: the length that the
  specification speaks of, whatever the machine arithmetic makes of it.
\<close>

definition norm4 :: "quat \<Rightarrow> real" where
  "norm4 q = sqrt (q0 q * q0 q + q1 q * q1 q + q2 q * q2 q + q3 q * q3 q)"

text \<open>\<^verbatim>\<open>add(q)\<close> reads \<^verbatim>\<open>q.values\<close> and adds slot by slot.\<close>

definition add_q :: "quat \<Rightarrow> quat \<Rightarrow> quat" where
  "add_q this q =
     (let t = values_q q
      in \<lparr>q0 = q0 this + q0 t, q1 = q1 this + q1 t, q2 = q2 this + q2 t, q3 = q3 this + q3 t\<rparr>)"

definition subtract :: "quat \<Rightarrow> quat \<Rightarrow> quat" where
  "subtract this q =
     (let t = values_q q
      in \<lparr>q0 = q0 this - q0 t, q1 = q1 this - q1 t, q2 = q2 this - q2 t, q3 = q3 this - q3 t\<rparr>)"

text \<open>
  \<^verbatim>\<open>multiply(q)\<close>: the eight operands are read into locals before the first
  slot is overwritten, and \<^verbatim>\<open>b\<close> is the copy \<^verbatim>\<open>q.values\<close>.
\<close>

definition multiply :: "quat \<Rightarrow> quat \<Rightarrow> quat" where
  "multiply this q =
     (let b = values_q q;
          aW = q0 this; aX = q1 this; aY = q2 this; aZ = q3 this;
          bW = q0 b; bX = q1 b; bY = q2 b; bZ = q3 b
      in \<lparr>q0 = aW*bW - aX*bX - aY*bY - aZ*bZ,
          q1 = aW*bX + aX*bW + aY*bZ - aZ*bY,
          q2 = aW*bY - aX*bZ + aY*bW + aZ*bX,
          q3 = aW*bZ + aX*bY - aY*bX + aZ*bW\<rparr>)"

definition multiplyByScalar :: "quat \<Rightarrow> real \<Rightarrow> quat" where
  "multiplyByScalar q a = \<lparr>q0 = q0 q * a, q1 = q1 q * a, q2 = q2 q * a, q3 = q3 q * a\<rparr>"

text \<open>\<^verbatim>\<open>invert()\<close>, slot by slot as the source writes it.\<close>

definition invert :: "quat \<Rightarrow> quat" where
  "invert q =
     (let l = q0 q * q0 q + q1 q * q1 q + q2 q * q2 q + q3 q * q3 q;
          d = (if \<bar>l\<bar> < 0.0000000001 then 1 else 1 / l)
      in \<lparr>q0 = - q0 q * d, q1 = - q1 q * d, q2 = - q2 q * d, q3 = q3 q * d\<rparr>)"

text \<open>\<^verbatim>\<open>divide(q)\<close>: invert a clone of the argument, then multiply by it.\<close>

definition divide_q :: "quat \<Rightarrow> quat \<Rightarrow> quat" where
  "divide_q this q = multiply this (invert (clone q))"

definition dot :: "quat \<Rightarrow> quat \<Rightarrow> real" where
  "dot this q =
     (let a = values_q q
      in q0 a * q0 this + q1 a * q1 this + q2 a * q2 this + q3 a * q3 this)"

text \<open>
  \<^verbatim>\<open>slerp(q, _t)\<close>. The locals are bound as the source binds them:
  \<^verbatim>\<open>qax\<close> and \<^verbatim>\<open>qay\<close> both read slot 2, and the last term of
  \<^verbatim>\<open>ctheta\<close> is \<^verbatim>\<open>qaw*qaw\<close>. In the branches below the first one
  \<open>\<bar>ctheta\<bar> < 1\<close> holds, so the arc cosine and the square root have real values.
\<close>

definition slerp :: "quat \<Rightarrow> quat \<Rightarrow> real \<Rightarrow> quat" where
  "slerp this q t_in =
     (let t = min (max 0.0 t_in) 1.0;
          qt = clone this;
          qaw = q0 this; qax = q2 this; qay = q2 this; qaz = q3 this;
          b = values_q q;
          qbw = q0 b; qbx = q1 b; qby = q2 b; qbz = q3 b;
          ctheta = qax*qbx + qay*qby + qaz*qbz + qaw*qaw
      in if \<bar>ctheta\<bar> \<ge> 1.0 then fromArray [qax, qay, qaz, qaw] qt
         else
          (let (qbx, qby, qbz, qbw, ctheta) =
                 (if ctheta < 0 then (- qbx, - qby, - qbz, - qbw, - ctheta)
                  else (qbx, qby, qbz, qbw, ctheta));
               halfTheta = arccos ctheta;
               sinHalfTheta = sqrt (1.0 - ctheta*ctheta)
           in if \<bar>sinHalfTheta\<bar> < 0.001
              then fromArray [qax*0.5 + qbx*0.5, qay*0.5 + qby*0.5,
                              qaz*0.5 + qbz*0.5, qaw*0.5 + qbw*0.5] qt
              else
               (let rA = sin ((1.0 - t)*halfTheta) / sinHalfTheta;
                    rB = sin (t*halfTheta) / sinHalfTheta
                in fromArray [qax*rA + qbx*rB, qay*rA + qby*rB,
                              qaz*rA + qbz*rB, qaw*rA + qbw*rB] qt)))"

text \<open>
  \<^verbatim>\<open>nlerp(q, _t)\<close> calls \<^verbatim>\<open>q.multiplyByScalar(t)\<close> on the argument
  object itself, so the caller's object matters and not only its values. Objects live
  in a store from references to arrays; the method takes the references of the
  receiver and of the argument (which may be the same reference) and returns the
  new quaternion \<^verbatim>\<open>qt\<close>, which is a fresh object, together with the store
  after the call.
\<close>

type_synonym store = "nat \<Rightarrow> quat"

definition nlerp :: "store \<Rightarrow> nat \<Rightarrow> nat \<Rightarrow> real \<Rightarrow> quat \<times> store" where
  "nlerp h this q t_in =
     (let t = min (max 0.0 t_in) 1.0;
          qt = clone (h this);
          t1 = 1.0 - t;
          t = (if dot (h this) (h q) < 0.0 then - t else t);
          qt = multiplyByScalar qt t1;
          h = h(q := multiplyByScalar (h q) t);
          qt = add_q qt (h q);
          qt = normalize_q qt
      in (qt, h))"

text \<open>
  \<^verbatim>\<open>fromRotationMatrix(m)\<close>. A matrix is an array of rows. With a number of
  rows other than three the method returns at once. All nine entries are read on
  every path, so a row with fewer than three entries puts \<^verbatim>\<open>undefined\<close> into
  the arithmetic and some slot becomes NaN; so does a negative radicand, and a zero
  \<^verbatim>\<open>r\<close> makes \<^verbatim>\<open>0.5/r\<close> infinite. These three outcomes are \<open>None\<close>.
  The slots written are \<^verbatim>\<open>_q[u]\<close>, \<^verbatim>\<open>_q[v]\<close>, \<^verbatim>\<open>_q[w]\<close> with
  indices from 0 to 2, and \<^verbatim>\<open>_q[3]\<close>.
\<close>

definition fromRotationMatrix :: "real list list \<Rightarrow> quat \<Rightarrow> quat option" where
  "fromRotationMatrix m this =
     (if length m \<noteq> 3 then Some this
      else if list_ex (\<lambda>row. length row < 3) m then None
      else
       (let e = (\<lambda>i j. m ! i ! j);
            (u, v, w) =
              (if e 0 0 > e 1 1 \<and> e 0 0 > e 2 2 then (0, 1, 2)
               else if e 1 1 > e 0 0 \<and> e 1 1 > e 2 2 then (1, 2, 0)
               else (2, 0, 1));
            x = 1 + e u u - e v v - e w w
        in if x < 0 then None
           else
            (let r = sqrt x
             in if r = 0 then None
                else
                 (let this = qset u (0.5*r) this;
                      r = 0.5 / r;
                      this = qset v (r*(e v u + e u v)) this;
                      this = qset w (r*(e u w + e w u)) this;
                      this = qset 3 (r*(e v w - e w v)) this
                  in Some this))))"

text \<open>\<^verbatim>\<open>toRotationMatrix()\<close>: three rows, or the empty array for a near-zero quaternion.\<close>

definition toRotationMatrix :: "quat \<Rightarrow> real list list" where
  "toRotationMatrix this =
     (let qW = q0 this; qX = q1 this; qY = q2 this; qZ = q3 this;
          qWqW = qW*qW; qWqX = qW*qX; qWqY = qW*qY; qWqZ = qW*qZ;
          qXqX = qX*qX; qXqY = qX*qY; qXqZ = qX*qZ;
          qYqY = qY*qY; qYqZ = qY*qZ;
          qZqZ = qZ*qZ;
          d = qWqW + qXqX + qYqY + qZqZ
      in if \<bar>d\<bar> > 0.0000000001
         then
          (let d = 1 / d; d2 = d + d
           in [[d*(qWqW + qXqX - qYqY - qZqZ), d2*(qWqZ + qXqY), d2*(qXqZ - qWqY)],
               [d2*(qXqY - qWqZ), d*(qWqW - qXqX + qYqY - qZqZ), d2*(qWqX + qYqZ)],
               [d2*(qWqY + qXqZ), d2*(qYqZ - qWqX), d*(qWqW - qXqX - qYqY + qZqZ)]])
         else [])"

text \<open>
  What the round trip is asked of: a matrix of three rows of three entries whose rows
  are orthonormal and whose determinant is 1.
\<close>

definition rotation_matrix :: "real list list \<Rightarrow> bool" where
  "rotation_matrix m =
     (length m = 3 \<and> list_all (\<lambda>row. length row = 3) m \<and>
      (let e = (\<lambda>i j. m ! i ! j)
       in e 0 0 * e 0 0 + e 0 1 * e 0 1 + e 0 2 * e 0 2 = 1 \<and>
          e 1 0 * e 1 0 + e 1 1 * e 1 1 + e 1 2 * e 1 2 = 1 \<and>
          e 2 0 * e 2 0 + e 2 1 * e 2 1 + e 2 2 * e 2 2 = 1 \<and>
          e 0 0 * e 1 0 + e 0 1 * e 1 1 + e 0 2 * e 1 2 = 0 \<and>
          e 0 0 * e 2 0 + e 0 1 * e 2 1 + e 0 2 * e 2 2 = 0 \<and>
          e 1 0 * e 2 0 + e 1 1 * e 2 1 + e 1 2 * e 2 2 = 0 \<and>
          e 0 0 * (e 1 1 * e 2 2 - e 1 2 * e 2 1)
            - e 0 1 * (e 1 0 * e 2 2 - e 1 2 * e 2 0)
            + e 0 2 * (e 1 0 * e 2 1 - e 1 1 * e 2 0) = 1))"

section \<open>The value holder (state/definitions/Q.ts)\<close>

text \<open>
  A parameter of type \<^verbatim>\<open>number\<close> holds a finite number, an infinity or NaN, and,
  since the project is compiled by TypeScript 2.3.4 without strict null checks, it can
  also hold \<^verbatim>\<open>null\<close> or \<^verbatim>\<open>undefined\<close>: the values come unchecked from a
  JSON document and from form fields, and \<^verbatim>\<open>__onModelLoaded\<close> passes
  \<^verbatim>\<open>q2Arr[4]\<close>, which is \<^verbatim>\<open>undefined\<close> for an array of four.
\<close>

datatype number = Num real | PosInfinity | NegInfinity | NaN | Null | Undefined

text \<open>
  The setters call the global functions \<^verbatim>\<open>isNaN\<close> and \<^verbatim>\<open>isFinite\<close>,
  which convert their argument to a number first: \<^verbatim>\<open>null\<close> becomes 0 and
  \<^verbatim>\<open>undefined\<close> becomes NaN.
\<close>

fun ToNumber :: "number \<Rightarrow> number" where
  "ToNumber Null = Num 0"
| "ToNumber Undefined = NaN"
| "ToNumber v = v"

definition isNaN :: "number \<Rightarrow> bool" where
  "isNaN v = (ToNumber v = NaN)"

definition isFinite :: "number \<Rightarrow> bool" where
  "isFinite v = (case ToNumber v of Num x \<Rightarrow> True | _ \<Rightarrow> False)"

record Q =
  Q_id :: string
  Q_w :: number
  Q_i :: number
  Q_j :: number
  Q_k :: number

definition set_w :: "number \<Rightarrow> Q \<Rightarrow> Q" where
  "set_w v this = (if \<not> isNaN v \<and> isFinite v then this\<lparr>Q_w := v\<rparr> else this)"

definition set_i :: "number \<Rightarrow> Q \<Rightarrow> Q" where
  "set_i v this = (if \<not> isNaN v \<and> isFinite v then this\<lparr>Q_i := v\<rparr> else this)"

definition set_j :: "number \<Rightarrow> Q \<Rightarrow> Q" where
  "set_j v this = (if \<not> isNaN v \<and> isFinite v then this\<lparr>Q_j := v\<rparr> else this)"

definition set_k :: "number \<Rightarrow> Q \<Rightarrow> Q" where
  "set_k v this = (if \<not> isNaN v \<and> isFinite v then this\<lparr>Q_k := v\<rparr> else this)"

text \<open>The field initialisers, which run before the constructor body.\<close>

definition Q_fields :: Q where
  "Q_fields = \<lparr>Q_id = [], Q_w = Num 0, Q_i = Num 0, Q_j = Num 0, Q_k = Num 0\<rparr>"

text \<open>
  The constructor assigns through the four setters and then the id, when one is given
  (\<open>None\<close> is \<^verbatim>\<open>undefined\<close>).
\<close>

definition Q_new :: "number \<Rightarrow> number \<Rightarrow> number \<Rightarrow> number \<Rightarrow> string option \<Rightarrow> Q" where
  "Q_new wValue iValue jValue kValue idv =
     (let this = Q_fields;
          this = set_w wValue this;
          this = set_i iValue this;
          this = set_j jValue this;
          this = set_k kValue this
      in case idv of None \<Rightarrow> this | Some s \<Rightarrow> this\<lparr>Q_id := s\<rparr>)"

definition Q_clone :: "Q \<Rightarrow> Q" where
  "Q_clone this = Q_new (Q_w this) (Q_i this) (Q_j this) (Q_k this) (Some (Q_id this))"

text \<open>A client's calls on an instance: any sequence of setter calls.\<close>

datatype Q_call = Set_w number | Set_i number | Set_j number | Set_k number

fun Q_apply :: "Q \<Rightarrow> Q_call \<Rightarrow> Q" where
  "Q_apply this (Set_w v) = set_w v this"
| "Q_apply this (Set_i v) = set_i v this"
| "Q_apply this (Set_j v) = set_j v this"
| "Q_apply this (Set_k v) = set_k v this"

fun argument :: "Q_call \<Rightarrow> number" where
  "argument (Set_w v) = v"
| "argument (Set_i v) = v"
| "argument (Set_j v) = v"
| "argument (Set_k v) = v"

text \<open>
  The invariant of the specification: each of the four components is a finite real
  number. This is about the stored value itself, with no conversion.
\<close>

fun finite_real :: "number \<Rightarrow> bool" where
  "finite_real (Num x) = True"
| "finite_real _ = False"

definition Q_finite :: "Q \<Rightarrow> bool" where
  "Q_finite this =
     (finite_real (Q_w this) \<and> finite_real (Q_i this) \<and> finite_real (Q_j this) \<and>
      finite_real (Q_k this))"

section \<open>The memory reducer (state/reducers/quaternion.reducers.ts)\<close>

definition TO_MEMORY :: string where
  "TO_MEMORY = ''[Calc] To_Memory''"

definition FROM_MEMORY :: string where
  "FROM_MEMORY = ''[Calc] From_Memory''"

text \<open>
  Modelled from the spec: the declaration of \<^verbatim>\<open>QMemory\<close>
  (state/definitions/QMemory.ts) is not among the sources. Its three fields are the
  ones the reducer's object literals write; the spec describes the slot as an optional
  quaternion value, an operand-identity tag and a provenance action tag.
\<close>

record QMemory =
  action :: string
  ident :: string
  memory :: "Q option"

text \<open>An action carries its type and, when the dispatcher gave one, a payload.\<close>

record QMemoryAction =
  atype :: string
  payload :: "QMemory option"

text \<open>Reading a property of \<^verbatim>\<open>undefined\<close> throws.\<close>

datatype js_error = TypeError

text \<open>
  The state is \<open>None\<close> when it is \<^verbatim>\<open>undefined\<close>: the store is built by
  \<^verbatim>\<open>StoreModule.forRoot(quaternionCalcReducers)\<close> with no initial state and the
  reducer declares no default for its first parameter.
\<close>

definition memoryReducer :: "QMemory option \<Rightarrow> QMemoryAction \<Rightarrow> js_error + QMemory option" where
  "memoryReducer state a =
     (if atype a = TO_MEMORY then
        (case payload a of
           None \<Rightarrow> Inl TypeError
         | Some p \<Rightarrow> Inr (Some \<lparr>action = atype a, ident = ident p, memory = memory p\<rparr>))
      else if atype a = FROM_MEMORY then
        (case state of
           None \<Rightarrow> Inl TypeError
         | Some s \<Rightarrow> Inr (Some \<lparr>action = FROM_MEMORY, ident = ident s, memory = memory s\<rparr>))
      else Inr state)"

section \<open>Properties of the engine\<close>

subsection \<open>Helper facts\<close>

lemma clone_same: "clone q = q"
  by (simp add: clone_def Quaternion_new_def)

lemma overflow_threshold_pos: "1 < overflow_threshold"
  by (simp add: overflow_threshold_def)

lemma plus_d_to_double:
  assumes "0 \<le> a" "0 \<le> b" "0 \<le> c" "0 \<le> d"
  shows "plus_d (plus_d (plus_d (to_double a) (to_double b)) (to_double c)) (to_double d)
           = to_double (a + b + c + d)"
  using assms by (auto simp add: to_double_def)

text \<open>
  The computed length is \<^verbatim>\<open>Infinity\<close> exactly when the sum of the squares
  reaches the threshold, and the Euclidean norm otherwise.
\<close>

lemma length_q_cases:
  "length_q q =
     (if overflow_threshold \<le> q0 q * q0 q + q1 q * q1 q + q2 q * q2 q + q3 q * q3 q
      then Infinity else Fin (norm4 q))"
  by (simp add: length_q_def plus_d_to_double) (simp add: to_double_def norm4_def)



lemma length_q_of_unit_norm:
  assumes "norm4 q = 1"
  shows "length_q q = Fin 1"
proof -
  let ?s = "q0 q * q0 q + q1 q * q1 q + q2 q * q2 q + q3 q * q3 q"
  from assms have "sqrt ?s = 1" by (simp add: norm4_def)
  then have "?s = 1" by simp
  then have "\<not> overflow_threshold \<le> ?s"
    using overflow_threshold_pos by simp
  then show ?thesis using assms by (simp add: length_q_cases)
qed

lemma multiplyByScalar_one: "multiplyByScalar q 1 = q"
  by (simp add: multiplyByScalar_def)




lemma length_q_unit: "length_q \<lparr>q0 = 1, q1 = 0, q2 = 0, q3 = 0\<rparr> = Fin 1"
  by (rule length_q_of_unit_norm) (simp add: norm4_def)





subsection \<open>Multiplication and loading\<close>

text \<open>
  C6. \<^verbatim>\<open>multiply\<close> overwrites the receiver (w1, i1, j1, k1) with the Hamilton
  product by the argument (w2, i2, j2, k2), the receiver on the left:
  w' = w1 w2 - i1 i2 - j1 j2 - k1 k2, i' = w1 i2 + i1 w2 + j1 k2 - k1 j2,
  j' = w1 j2 - i1 k2 + j1 w2 + k1 i2, k' = w1 k2 + i1 j2 - j1 i2 + k1 w2.
\<close>

theorem multiply_hamilton:
  "multiply \<lparr>q0 = w1, q1 = i1, q2 = j1, q3 = k1\<rparr> \<lparr>q0 = w2, q1 = i2, q2 = j2, q3 = k2\<rparr> =
     \<lparr>q0 = w1*w2 - i1*i2 - j1*j2 - k1*k2,
      q1 = w1*i2 + i1*w2 + j1*k2 - k1*j2,
      q2 = w1*j2 - i1*k2 + j1*w2 + k1*i2,
      q3 = w1*k2 + i1*j2 - j1*i2 + k1*w2\<rparr>"
  by (simp add: multiply_def values_q_def)

text \<open>
  C10. A call of \<^verbatim>\<open>fromArray\<close> with fewer than three values (the empty call
  included) leaves the four components as they were; with exactly three values the
  real component becomes 1.0 and the values become the i, j and k components.
\<close>

theorem fromArray_short_or_three:
  "(length vs < 3 \<longrightarrow> fromArray vs q = q) \<and>
   fromArray [x, y, z] q = \<lparr>q0 = 1, q1 = x, q2 = y, q3 = z\<rparr>"
proof
  show "length vs < 3 \<longrightarrow> fromArray vs q = q"
    by (cases "(vs, q)" rule: fromArray.cases) simp_all
  show "fromArray [x, y, z] q = \<lparr>q0 = 1, q1 = x, q2 = y, q3 = z\<rparr>"
    by simp
qed

theorem fromArray_short_or_three_witness:
  "length [5, 7 :: real] < 3 \<and>
   fromArray [5, 7] \<lparr>q0 = 2, q1 = 3, q2 = 4, q3 = 6\<rparr> = \<lparr>q0 = 2, q1 = 3, q2 = 4, q3 = 6\<rparr> \<and>
   fromArray [5, 7, 9] \<lparr>q0 = 2, q1 = 3, q2 = 4, q3 = 6\<rparr> = \<lparr>q0 = 1, q1 = 5, q2 = 7, q3 = 9\<rparr>"
proof -
  have short: "length [5, 7 :: real] < 3" by simp
  note inst = fromArray_short_or_three
    [of "[5, 7]" "\<lparr>q0 = 2, q1 = 3, q2 = 4, q3 = 6\<rparr>" 5 7 9]
  from inst short show ?thesis by blast
qed

subsection \<open>Normalisation\<close>




subsection \<open>Inversion\<close>

text \<open>
  C1. The product of a quaternion by the inverse of its clone should be close to the
  identity (1, 0, 0, 0) whenever the squared norm is well above 1e-10. The unit
  quaternion (1, 0, 0, 0) has squared norm 1; \<^verbatim>\<open>invert\<close> turns its clone into
  (-1, 0, 0, 0), and the product is (-1, 0, 0, 0), at distance 2 from the identity.
  Every number on the way is 0, 1 or -1.
\<close>

theorem multiply_by_invert_of_unit:
  "(0.0000000001 :: real) < 1*1 + 0*0 + 0*0 + 0*0 \<and>
   invert (clone \<lparr>q0 = 1, q1 = 0, q2 = 0, q3 = 0\<rparr>) = \<lparr>q0 = -1, q1 = 0, q2 = 0, q3 = 0\<rparr> \<and>
   multiply \<lparr>q0 = 1, q1 = 0, q2 = 0, q3 = 0\<rparr> (invert (clone \<lparr>q0 = 1, q1 = 0, q2 = 0, q3 = 0\<rparr>))
     = \<lparr>q0 = -1, q1 = 0, q2 = 0, q3 = 0\<rparr>"
  by (simp add: multiply_def invert_def clone_same values_q_def)

text \<open>
  C2. Above the threshold the inverse should be the conjugate over the squared norm:
  w kept, i, j and k negated, each scaled by d = 1/(w*w + i*i + j*j + k*k). The
  source negates slots 0, 1 and 2 and keeps slot 3, that is, it negates w, i and j
  and keeps k. At (1, 1, 1, 1), where d = 1/4, the result is
  (-1/4, -1/4, -1/4, 1/4), and the conjugate over the squared norm is
  (1/4, -1/4, -1/4, -1/4).
\<close>

theorem invert_negates_w_keeps_k:
  "invert \<lparr>q0 = 1, q1 = 1, q2 = 1, q3 = 1\<rparr> = \<lparr>q0 = -1/4, q1 = -1/4, q2 = -1/4, q3 = 1/4\<rparr>"
  by (simp add: invert_def Let_def)

text \<open>What \<^verbatim>\<open>invert\<close> computes in general, and the division that rests on it.\<close>

lemma invert_slots:
  "invert q =
     (let d = (if \<bar>q0 q * q0 q + q1 q * q1 q + q2 q * q2 q + q3 q * q3 q\<bar> < 0.0000000001
               then 1 else 1 / (q0 q * q0 q + q1 q * q1 q + q2 q * q2 q + q3 q * q3 q))
      in \<lparr>q0 = - (q0 q * d), q1 = - (q1 q * d), q2 = - (q2 q * d), q3 = q3 q * d\<rparr>)"
  by (simp add: invert_def Let_def)

lemma divide_unit_by_itself:
  "divide_q \<lparr>q0 = 1, q1 = 0, q2 = 0, q3 = 0\<rparr> \<lparr>q0 = 1, q1 = 0, q2 = 0, q3 = 0\<rparr>
     = \<lparr>q0 = -1, q1 = 0, q2 = 0, q3 = 0\<rparr>"
  by (simp add: divide_q_def multiply_def invert_def clone_same values_q_def)

subsection \<open>Interpolation\<close>

text \<open>
  C3. When \<open>\<bar>cosHalfTheta\<bar> \<ge> 1\<close>, \<^verbatim>\<open>slerp\<close> should return the receiver's
  components in the order w, i, j, k. For the receiver (1, 0, 0, 0) the source
  computes \<^verbatim>\<open>ctheta = qaw*qaw = 1\<close> whatever the argument and the parameter
  are, takes the first branch and returns
  \<^verbatim>\<open>fromArray(qax, qay, qaz, qaw)\<close>, which is (0, 0, 0, 1).
\<close>

theorem slerp_of_unit_receiver:
  "slerp \<lparr>q0 = 1, q1 = 0, q2 = 0, q3 = 0\<rparr> qb t = \<lparr>q0 = 0, q1 = 0, q2 = 0, q3 = 1\<rparr>"
  by (simp add: slerp_def clone_same values_q_def Let_def)

text \<open>The degenerate branch in general: slots 2, 2, 3 and 0 of the receiver.\<close>

lemma slerp_degenerate_branch:
  assumes "1 \<le> \<bar>q2 qa * q1 qb + q2 qa * q2 qb + q3 qa * q3 qb + q0 qa * q0 qa\<bar>"
  shows "slerp qa qb t = \<lparr>q0 = q2 qa, q1 = q2 qa, q2 = q3 qa, q3 = q0 qa\<rparr>"
  using assms by (simp add: slerp_def clone_same values_q_def Let_def)

text \<open>
  C5. \<^verbatim>\<open>nlerp\<close> should leave both operands as they were. With the receiver
  (1, 0, 0, 0) at reference 0, the argument (0, 1, 0, 0) at reference 1 and t = 0, the
  call returns (1, 0, 0, 0) and leaves (0, 0, 0, 0) at reference 1: the argument has
  been multiplied by t in place.
\<close>

theorem nlerp_scales_argument_in_place:
  "nlerp ((\<lambda>r. Quaternion_new)(1 := \<lparr>q0 = 0, q1 = 1, q2 = 0, q3 = 0\<rparr>)) 0 1 0 =
     (\<lparr>q0 = 1, q1 = 0, q2 = 0, q3 = 0\<rparr>,
      (\<lambda>r. Quaternion_new)(1 := \<lparr>q0 = 0, q1 = 0, q2 = 0, q3 = 0\<rparr>))"
  by (simp add: nlerp_def clone_same Quaternion_new_def values_q_def Let_def dot_def
      multiplyByScalar_def add_q_def normalize_q_def length_q_unit)

text \<open>
  The store after any call: the argument's object holds its old values times the signed
  parameter, and no other object has changed.
\<close>

lemma nlerp_store_after:
  "snd (nlerp h this q t) =
     h(q := multiplyByScalar (h q)
              (if dot (h this) (h q) < 0 then - min (max 0 t) 1 else min (max 0 t) 1))"
  by (simp add: nlerp_def Let_def)

subsection \<open>Rotation matrices\<close>

text \<open>
  C8. Loading a rotation matrix and exporting it again should give the matrix back.
  The half turn about the first axis, with diagonal 1, -1, -1, is a rotation matrix.
  \<^verbatim>\<open>fromRotationMatrix\<close> finds u = 0, r = 2 and writes 0.5*r = 1 into slot 0
  and 0 into slots 1, 2 and 3, whatever the receiver held; slot 0 is the real
  component, so the quaternion is the identity and \<^verbatim>\<open>toRotationMatrix\<close>
  returns the identity matrix.
\<close>

theorem rotation_matrix_round_trip_of_half_turn:
  "rotation_matrix [[1, 0, 0], [0, -1, 0], [0, 0, -1]] \<and>
   fromRotationMatrix [[1, 0, 0], [0, -1, 0], [0, 0, -1]] this
     = Some \<lparr>q0 = 1, q1 = 0, q2 = 0, q3 = 0\<rparr> \<and>
   toRotationMatrix \<lparr>q0 = 1, q1 = 0, q2 = 0, q3 = 0\<rparr> = [[1, 0, 0], [0, 1, 0], [0, 0, 1]]"
proof (intro conjI)
  show "rotation_matrix [[1, 0, 0], [0, -1, 0], [0, 0, -1]]"
    by (simp add: rotation_matrix_def)
  show "fromRotationMatrix [[1, 0, 0], [0, -1, 0], [0, 0, -1]] this
          = Some \<lparr>q0 = 1, q1 = 0, q2 = 0, q3 = 0\<rparr>"
    by (cases this) (simp add: fromRotationMatrix_def qset_def Let_def)
  show "toRotationMatrix \<lparr>q0 = 1, q1 = 0, q2 = 0, q3 = 0\<rparr> = [[1, 0, 0], [0, 1, 0], [0, 0, 1]]"
    by (simp add: toRotationMatrix_def Let_def)
qed

text \<open>
  The identity matrix is a rotation matrix too; there no diagonal entry is strictly
  the largest, so u = 2, the radicand is 0 and \<^verbatim>\<open>0.5/r\<close> divides by zero.
\<close>

lemma fromRotationMatrix_of_identity:
  "rotation_matrix [[1, 0, 0], [0, 1, 0], [0, 0, 1]] \<and>
   fromRotationMatrix [[1, 0, 0], [0, 1, 0], [0, 0, 1]] this = None"
  by (simp add: rotation_matrix_def fromRotationMatrix_def Let_def)

section \<open>Properties of the value holder\<close>

text \<open>What the guard of the setters lets through: the finite numbers, and \<^verbatim>\<open>null\<close>.\<close>

lemma guard_accepts: "(\<not> isNaN v \<and> isFinite v) = (finite_real v \<or> v = Null)"
  by (cases v) (simp_all add: isNaN_def isFinite_def)

text \<open>
  C9. The four components of a \<^verbatim>\<open>Q\<close> should be finite real numbers at all
  times, through construction and through every setter call.
  \<^verbatim>\<open>new Q(null, 2, 3, 4)\<close> runs \<^verbatim>\<open>this.w = null\<close>; the guard
  \<^verbatim>\<open>!isNaN(value) && isFinite(value)\<close> holds for \<^verbatim>\<open>null\<close>, which the
  global functions convert to 0, and the setter stores \<^verbatim>\<open>null\<close> in
  \<^verbatim>\<open>_w\<close>. The same happens to a constructed instance on \<^verbatim>\<open>q.w = null\<close>.
\<close>

theorem Q_constructor_stores_null:
  "Q_new Null (Num 2) (Num 3) (Num 4) None =
     \<lparr>Q_id = [], Q_w = Null, Q_i = Num 2, Q_j = Num 3, Q_k = Num 4\<rparr> \<and>
   \<not> Q_finite (Q_new Null (Num 2) (Num 3) (Num 4) None) \<and>
   set_w Null (Q_new (Num 1) (Num 2) (Num 3) (Num 4) None) =
     \<lparr>Q_id = [], Q_w = Null, Q_i = Num 2, Q_j = Num 3, Q_k = Num 4\<rparr>"
  by (simp add: Q_new_def Q_fields_def Q_finite_def set_w_def set_i_def set_j_def set_k_def
      isNaN_def isFinite_def)

text \<open>
  Every other argument is handled as the invariant needs: NaN, the infinities and
  \<^verbatim>\<open>undefined\<close> are ignored and a finite number is stored. So the components
  stay finite as long as no argument is \<^verbatim>\<open>null\<close>.
\<close>

lemma set_w_cases:
  "set_w NaN this = this \<and> set_w PosInfinity this = this \<and> set_w NegInfinity this = this \<and>
   set_w Undefined this = this \<and> set_w (Num x) this = this\<lparr>Q_w := Num x\<rparr> \<and>
   set_w Null this = this\<lparr>Q_w := Null\<rparr>"
  by (simp add: set_w_def isNaN_def isFinite_def)

lemma Q_apply_finite:
  "Q_finite this \<Longrightarrow> argument c \<noteq> Null \<Longrightarrow> Q_finite (Q_apply this c)"
  by (cases c) (auto simp add: Q_finite_def set_w_def set_i_def set_j_def set_k_def guard_accepts)

lemma Q_fields_finite: "Q_finite Q_fields"
  by (simp add: Q_finite_def Q_fields_def)

lemma Q_new_finite:
  assumes "wValue \<noteq> Null" "iValue \<noteq> Null" "jValue \<noteq> Null" "kValue \<noteq> Null"
  shows "Q_finite (Q_new wValue iValue jValue kValue idv)"
proof -
  have "Q_finite (Q_apply (Q_apply (Q_apply (Q_apply Q_fields (Set_w wValue)) (Set_i iValue))
                    (Set_j jValue)) (Set_k kValue))"
    using assms by (intro Q_apply_finite Q_fields_finite) simp_all
  then show ?thesis
    by (cases idv) (simp_all add: Q_new_def Q_finite_def)
qed

lemma Q_calls_finite:
  "Q_finite this \<Longrightarrow> list_all (\<lambda>c. argument c \<noteq> Null) calls \<Longrightarrow>
   Q_finite (foldl Q_apply this calls)"
  by (induction calls arbitrary: this) (simp_all add: Q_apply_finite)

section \<open>Properties of the memory reducer\<close>

text \<open>
  C4. Recalling from a memory that was never stored to should give an absent value
  and no error. The memory slice starts as \<^verbatim>\<open>undefined\<close>: the store's first
  action has a type the reducer does not know, and the default branch returns the
  state it was given. A \<^verbatim>\<open>FROM_MEMORY\<close> action on that state reads
  \<^verbatim>\<open>state.id\<close> and throws.
\<close>

theorem recall_from_fresh_memory_throws:
  "memoryReducer None \<lparr>atype = ''@ngrx/store/init'', payload = None\<rparr> = Inr None \<and>
   memoryReducer None \<lparr>atype = FROM_MEMORY, payload = None\<rparr> = Inl TypeError"
  by (simp add: memoryReducer_def TO_MEMORY_def FROM_MEMORY_def)

text \<open>After a store, a recall keeps the value and the tag and only marks the action.\<close>

lemma recall_after_store:
  "memoryReducer (Some s) \<lparr>atype = FROM_MEMORY, payload = p\<rparr>
     = Inr (Some \<lparr>action = FROM_MEMORY, ident = ident s, memory = memory s\<rparr>)"
  by (simp add: memoryReducer_def TO_MEMORY_def FROM_MEMORY_def)

end
